theory Spec2Isabelle
  imports Main
begin

section \<open>The chat server of \<open>src/index.ts\<close>\<close>

text \<open>
  The server is a set of hooks (\<open>fetch\<close>, \<open>open\<close>, \<open>message\<close>, \<open>close\<close>) and two helpers
  (\<open>joinRoom\<close>, \<open>leaveRoom\<close>) that the runtime calls one at a time. Each of them becomes a
  function from the server state to the server state. Everything a hook does to the
  outside (a direct send, a publish, a subscription change, a log line) and every change
  of a connection's room set is appended to a trace, so that the order of the steps of
  the source can be stated.
\<close>

subsection \<open>Strings of the platform\<close>

text \<open>
  \<open>String.prototype.split\<close> with a one-character separator: the pieces between the
  separators, empty pieces included; the result is never empty (\<open>"".split(" ")\<close> is
  \<open>[""]\<close>).
\<close>

fun js_split :: "char \<Rightarrow> string \<Rightarrow> string list" where
  "js_split sep [] = [[]]"
| "js_split sep (c # cs) =
     (if c = sep then [] # js_split sep cs
      else (case js_split sep cs of
              [] \<Rightarrow> [[c]]
            | w # ws \<Rightarrow> (c # w) # ws))"

text \<open>\<open>Array.prototype.join\<close>: the elements with the separator between them.\<close>

fun js_join :: "string \<Rightarrow> string list \<Rightarrow> string" where
  "js_join sep [] = []"
| "js_join sep [x] = x"
| "js_join sep (x # y # ys) = x @ sep @ js_join sep (y # ys)"

text \<open>
  \<open>String.prototype.toLowerCase\<close> on the letters \<open>A\<close> to \<open>Z\<close>; every other character is
  kept. (The only other character that the platform lowers to an ASCII letter is the
  Kelvin sign, to \<open>k\<close>, a letter that no command name has.)
\<close>

definition lower_char :: "char \<Rightarrow> char" where
  "lower_char c =
     (case map_of (zip ''ABCDEFGHIJKLMNOPQRSTUVWXYZ'' ''abcdefghijklmnopqrstuvwxyz'') c of
        None \<Rightarrow> c
      | Some l \<Rightarrow> l)"

definition toLowerCase :: "string \<Rightarrow> string" where
  "toLowerCase s = map lower_char s"

text \<open>\<open>String.prototype.startsWith\<close>.\<close>

definition startsWith :: "string \<Rightarrow> string \<Rightarrow> bool" where
  "startsWith s p = (take (length p) s = p)"

text \<open>
  \<open>args[0]\<close>: the first element, or \<open>undefined\<close> (here \<open>None\<close>) when the array is empty.
\<close>

definition index0 :: "'a list \<Rightarrow> 'a option" where
  "index0 xs = (case xs of [] \<Rightarrow> None | x # _ \<Rightarrow> Some x)"

text \<open>
  A \<open>Set<string>\<close> keeps its elements in insertion order and holds none twice: a list,
  with \<open>add\<close> appending an element that is not there yet, \<open>delete\<close> removing it and
  \<open>has\<close> the membership test.
\<close>

definition set_add :: "'a \<Rightarrow> 'a list \<Rightarrow> 'a list" where
  "set_add x xs = (if x \<in> set xs then xs else xs @ [x])"

definition set_delete :: "'a \<Rightarrow> 'a list \<Rightarrow> 'a list" where
  "set_delete x xs = filter (\<lambda>y. y \<noteq> x) xs"

definition set_has :: "'a list \<Rightarrow> 'a \<Rightarrow> bool" where
  "set_has xs x = (x \<in> set xs)"

subsection \<open>Data model\<close>

text \<open>The request, as the parsed URL the code reads from it (\<open>new URL(req.url)\<close>).\<close>

record Request =
  pathname :: string
  searchParams :: "(string \<times> string) list"

text \<open>\<open>URLSearchParams.get\<close>: the value of the first parameter of that name, or \<open>null\<close>.\<close>

definition searchParams_get :: "(string \<times> string) list \<Rightarrow> string \<Rightarrow> string option" where
  "searchParams_get ps name = map_of ps name"

record WebSocketData =
  username :: string
  rooms :: "string list"

type_synonym conn = nat

datatype effect =
    Log string
  | Send conn string
  | Publish string string
  | Subscribe conn string
  | Unsubscribe conn string
  | RoomsAdd conn string
  | RoomsDelete conn string
  | RoomsClear conn

text \<open>
  The state of the server: the data attached to each connection (connections are numbered
  in the order of their upgrade, \<open>next_conn\<close> counts them), the subscription table of the
  runtime's publish/subscribe facility, and the trace of what has been done so far.
\<close>

record server_state =
  data :: "conn \<Rightarrow> WebSocketData"
  next_conn :: nat
  subs :: "(conn \<times> string) set"
  trace :: "effect list"

datatype response = Response string nat

subsection \<open>Primitives of the runtime\<close>

definition console_log :: "string \<Rightarrow> server_state \<Rightarrow> server_state" where
  "console_log line s = s\<lparr>trace := trace s @ [Log line]\<rparr>"

definition ws_send :: "conn \<Rightarrow> string \<Rightarrow> server_state \<Rightarrow> server_state" where
  "ws_send ws msg s = s\<lparr>trace := trace s @ [Send ws msg]\<rparr>"

text \<open>
  Modelled from the spec: the publish/subscribe facility of the runtime (\<open>ws.subscribe\<close>,
  \<open>ws.unsubscribe\<close>, \<open>server.publish\<close>), which the source calls and does not define.
  Subscribing registers the connection as a recipient of the topic and is idempotent;
  unsubscribing removes it and does nothing when it is not subscribed; publishing hands
  the message to the topic.
\<close>

definition ws_subscribe :: "conn \<Rightarrow> string \<Rightarrow> server_state \<Rightarrow> server_state" where
  "ws_subscribe ws topic s =
     s\<lparr>subs := insert (ws, topic) (subs s), trace := trace s @ [Subscribe ws topic]\<rparr>"

definition ws_unsubscribe :: "conn \<Rightarrow> string \<Rightarrow> server_state \<Rightarrow> server_state" where
  "ws_unsubscribe ws topic s =
     s\<lparr>subs := subs s - {(ws, topic)}, trace := trace s @ [Unsubscribe ws topic]\<rparr>"

definition server_publish :: "string \<Rightarrow> string \<Rightarrow> server_state \<Rightarrow> server_state" where
  "server_publish topic msg s = s\<lparr>trace := trace s @ [Publish topic msg]\<rparr>"

text \<open>
  Modelled from the spec: \<open>server.upgrade\<close> of the runtime. When it succeeds a new
  connection exists, carrying the data it was given and subscribed to nothing; whether it
  succeeds is the runtime's (\<open>ok\<close>).
\<close>

definition server_upgrade :: "WebSocketData \<Rightarrow> bool \<Rightarrow> server_state \<Rightarrow> bool \<times> server_state" where
  "server_upgrade d ok s =
     (if ok then (True, s\<lparr>data := (data s)(next_conn s := d), next_conn := Suc (next_conn s)\<rparr>)
      else (False, s))"

text \<open>The three mutations of \<open>ws.data.rooms\<close>.\<close>

definition rooms_add :: "conn \<Rightarrow> string \<Rightarrow> server_state \<Rightarrow> server_state" where
  "rooms_add ws roomName s =
     s\<lparr>data := (data s)(ws := (data s ws)\<lparr>rooms := set_add roomName (rooms (data s ws))\<rparr>),
       trace := trace s @ [RoomsAdd ws roomName]\<rparr>"

definition rooms_delete :: "conn \<Rightarrow> string \<Rightarrow> server_state \<Rightarrow> server_state" where
  "rooms_delete ws roomName s =
     s\<lparr>data := (data s)(ws := (data s ws)\<lparr>rooms := set_delete roomName (rooms (data s ws))\<rparr>),
       trace := trace s @ [RoomsDelete ws roomName]\<rparr>"

definition rooms_clear :: "conn \<Rightarrow> server_state \<Rightarrow> server_state" where
  "rooms_clear ws s =
     s\<lparr>data := (data s)(ws := (data s ws)\<lparr>rooms := []\<rparr>),
       trace := trace s @ [RoomsClear ws]\<rparr>"

subsection \<open>The helpers\<close>

definition getUsernameFromReq :: "Request \<Rightarrow> string" where
  "getUsernameFromReq req =
     (case searchParams_get (searchParams req) ''username'' of
        None \<Rightarrow> ''Anonymous''
      | Some u \<Rightarrow> if u = [] then ''Anonymous'' else u)"

definition joinRoom :: "conn \<Rightarrow> string \<Rightarrow> server_state \<Rightarrow> server_state" where
  "joinRoom ws roomName s0 =
     (let s1 = ws_subscribe ws roomName s0;
          s2 = rooms_add ws roomName s1;
          s3 = console_log (''User '' @ username (data s2 ws) @ '' joined room: '' @ roomName) s2;
          s4 = ws_send ws (''You have joined room: '' @ roomName) s3
      in server_publish roomName (username (data s4 ws) @ '' has joined the room'') s4)"

definition leaveRoom :: "conn \<Rightarrow> string \<Rightarrow> server_state \<Rightarrow> server_state" where
  "leaveRoom ws roomName s0 =
     (if \<not> set_has (rooms (data s0 ws)) roomName
      then ws_send ws (''You are not in room '' @ roomName) s0
      else
        (let s1 = ws_unsubscribe ws roomName s0;
             s2 = rooms_delete ws roomName s1;
             s3 = console_log (''User '' @ username (data s2 ws) @ '' left room: '' @ roomName) s2;
             s4 = ws_send ws (''You have left room: '' @ roomName) s3
         in server_publish roomName (username (data s4 ws) @ '' has left the room'') s4))"

subsection \<open>The hooks\<close>

text \<open>
  \<open>fetch\<close>: a request for \<open>/chat\<close> is upgraded, with the user name of the request and an
  empty room set as the data of the new connection; the answer is none (\<open>undefined\<close>)
  when the upgrade succeeded.
\<close>

definition fetch :: "Request \<Rightarrow> bool \<Rightarrow> server_state \<Rightarrow> response option \<times> server_state" where
  "fetch req ok s0 =
     (if pathname req = ''/chat'' then
        (let s1 = console_log ''WebSocket upgrade request received'' s0;
             username = getUsernameFromReq req;
             (success, s2) = server_upgrade \<lparr>username = username, rooms = []\<rparr> ok s1
         in (if success then None else Some (Response ''WebSocket upgrade error'' 400), s2))
      else (Some (Response ''Simple WebSocket Server'' 200), s0))"

definition newline :: string where
  "newline = [CHR 0x0A]"

definition open_ws :: "conn \<Rightarrow> server_state \<Rightarrow> server_state" where
  "open_ws ws s0 =
     (let s1 = console_log (''User '' @ username (data s0 ws) @ '' connected'') s0;
          s2 = ws_send ws (''Welcome, '' @ username (data s1 ws) @ ''!'') s1
      in ws_send ws
           (''Available commands:'' @ newline @
            ''- /join [room] - Join a room'' @ newline @
            ''- /leave [room] - Leave a room'' @ newline @
            ''- /room [room] [message] - Send a message to a room'' @ newline @
            ''- /rooms - List all available rooms'' @ newline @
            ''- /myrooms - List rooms you'' @ [CHR 0x27] @ ''ve joined'' @ newline @
            ''- Any other message will be echoed back to you'') s2)"

text \<open>
  \<open>message\<close>. The \<open>switch\<close> on the lowered command is the chain of comparisons below, in
  the order of its cases. \<open>!roomName\<close> holds when \<open>args[0]\<close> is \<open>undefined\<close> or the empty
  string, \<open>!roomMessage\<close> when the joined rest is the empty string. The template
  \<open>${ws.data.rooms}\<close> of the log line prints a \<open>Set\<close> as \<open>[object Set]\<close>.
\<close>

definition message :: "conn \<Rightarrow> string \<Rightarrow> server_state \<Rightarrow> server_state" where
  "message ws messageStr s0 =
     (let s = console_log (''Message from '' @ username (data s0 ws) @ '': '' @ messageStr) s0
      in if startsWith messageStr ''/'' then
           (case js_split (CHR '' '') (drop 1 messageStr) of
              [] \<Rightarrow> s
            | command # args \<Rightarrow>
                (let cmd = toLowerCase command
                 in if cmd = ''join'' then
                      (case index0 args of
                         None \<Rightarrow> ws_send ws ''Please specify a room name: /join [room]'' s
                       | Some roomName \<Rightarrow>
                           if roomName = []
                           then ws_send ws ''Please specify a room name: /join [room]'' s
                           else joinRoom ws roomName s)
                    else if cmd = ''leave'' then
                      (case index0 args of
                         None \<Rightarrow> ws_send ws ''Please specify a room name: /leave [room]'' s
                       | Some roomName \<Rightarrow>
                           if roomName = []
                           then ws_send ws ''Please specify a room name: /leave [room]'' s
                           else leaveRoom ws roomName s)
                    else if cmd = ''room'' then
                      (let roomMessage = js_join '' '' (drop 1 args)
                       in case index0 args of
                            None \<Rightarrow>
                              ws_send ws
                                ''Please specify a room name and message: /room [room] [message]'' s
                          | Some roomName \<Rightarrow>
                              if roomName = [] \<or> roomMessage = []
                              then ws_send ws
                                ''Please specify a room name and message: /room [room] [message]'' s
                              else
                                (let s1 = console_log ''Available rooms : [object Set]'' s
                                 in if \<not> set_has (rooms (data s1 ws)) roomName
                                    then ws_send ws
                                           (''You are not in room '' @ roomName @
                                            ''. Join it first with /join '' @ roomName) s1
                                    else server_publish roomName
                                           (''['' @ roomName @ ''] '' @ username (data s1 ws) @
                                            '': '' @ roomMessage) s1))
                    else if cmd = ''rooms'' then
                      ws_send ws ''To join a room, use: /join [room]'' s
                    else if cmd = ''myrooms'' then
                      (if length (rooms (data s ws)) = 0
                       then ws_send ws
                              ''You have not joined any rooms. Join one with /join [room]'' s
                       else
                         (let roomList = js_join newline (rooms (data s ws))
                          in ws_send ws (''Your rooms:'' @ newline @ roomList) s))
                    else
                      ws_send ws
                        (''Unknown command: '' @ command @
                         ''. Available commands: /join, /leave, /room, /rooms, /myrooms'') s))
         else ws_send ws (username (data s ws) @ '': '' @ messageStr) s)"

text \<open>
  \<open>close\<close>: the loop over the room set (its body does not change the set, so it runs over
  the rooms in their order at the start), then the clearing of the set.
\<close>

fun close_loop :: "conn \<Rightarrow> string list \<Rightarrow> server_state \<Rightarrow> server_state" where
  "close_loop ws [] s = s"
| "close_loop ws (roomName # rest) s =
     close_loop ws rest
       (ws_unsubscribe ws roomName
          (server_publish roomName
             (username (data s ws) @ '' has left the room (disconnected)'') s))"

definition close :: "conn \<Rightarrow> server_state \<Rightarrow> server_state" where
  "close ws s0 =
     (let s1 = console_log (''User '' @ username (data s0 ws) @ '' disconnected'') s0;
          s2 = close_loop ws (rooms (data s1 ws)) s1
      in rooms_clear ws s2)"

subsection \<open>The server as a whole\<close>

text \<open>
  What happens to the server: a request arrives (and the runtime lets the upgrade succeed
  or not; an upgraded request is followed by the \<open>open\<close> hook on the new connection), a
  text frame arrives on a connection, a connection closes. \<open>Join\<close> and \<open>Leave\<close> call the
  two helpers directly. The runtime calls a hook only on a connection that it has
  created.
\<close>

datatype input =
    Connect Request bool
  | Message conn string
  | Close conn
  | Join conn string
  | Leave conn string

fun step :: "input \<Rightarrow> server_state \<Rightarrow> server_state" where
  "step (Connect req ok) s =
     (case fetch req ok s of
        (None, s1) \<Rightarrow> open_ws (next_conn s) s1
      | (Some resp, s1) \<Rightarrow> s1)"
| "step (Message ws text) s = (if ws < next_conn s then message ws text s else s)"
| "step (Close ws) s = (if ws < next_conn s then close ws s else s)"
| "step (Join ws roomName) s = (if ws < next_conn s then joinRoom ws roomName s else s)"
| "step (Leave ws roomName) s = (if ws < next_conn s then leaveRoom ws roomName s else s)"

fun run :: "input list \<Rightarrow> server_state \<Rightarrow> server_state" where
  "run [] s = s"
| "run (i # is) s = run is (step i s)"

text \<open>The server at its start: no connection, no subscription, nothing done.\<close>

definition init :: server_state where
  "init = \<lparr>data = (\<lambda>_. \<lparr>username = [], rooms = []\<rparr>), next_conn = 0, subs = {}, trace = []\<rparr>"

text \<open>
  What the protocol does: the trace without the log lines (the spec places logging
  outside the core).
\<close>

fun is_Log :: "effect \<Rightarrow> bool" where
  "is_Log (Log _) = True"
| "is_Log _ = False"

definition effects :: "server_state \<Rightarrow> effect list" where
  "effects s = filter (\<lambda>e. \<not> is_Log e) (trace s)"

text \<open>
  A handler that only answers: one direct send to the connection is all it adds to what
  the protocol has done, and the state of the server is what it was.
\<close>

definition replies_only :: "conn \<Rightarrow> string \<Rightarrow> server_state \<Rightarrow> server_state \<Rightarrow> bool" where
  "replies_only ws reply s s' =
     (effects s' = effects s @ [Send ws reply] \<and>
      data s' = data s \<and> subs s' = subs s \<and> next_conn s' = next_conn s)"

subsection \<open>Invariants of the server\<close>

text \<open>
  The two views of membership agree: a room is in the room set of a connection exactly
  when the connection is subscribed to the topic of that name.
\<close>

definition consistent :: "server_state \<Rightarrow> bool" where
  "consistent s = (\<forall>c r. (r \<in> set (rooms (data s c))) = ((c, r) \<in> subs s))"

text \<open>A connection that does not exist yet has no room.\<close>

definition unused_empty :: "server_state \<Rightarrow> bool" where
  "unused_empty s = (\<forall>c. next_conn s \<le> c \<longrightarrow> rooms (data s c) = [])"

text \<open>Every connection that exists has a user name that is not empty.\<close>

definition named :: "server_state \<Rightarrow> bool" where
  "named s = (\<forall>c. c < next_conn s \<longrightarrow> username (data s c) \<noteq> [])"

subsection \<open>The grammar as the spec words it\<close>

text \<open>
  The spec speaks of whitespace-delimited tokens. \<open>spec_tokens\<close> follows these words, to
  be compared with what the source does (\<open>split(' ')\<close>): the tokens of a text are its
  maximal runs of characters that are not whitespace.
\<close>

definition is_whitespace :: "char \<Rightarrow> bool" where
  "is_whitespace c =
     (c = CHR '' '' \<or> c = CHR 0x09 \<or> c = CHR 0x0A \<or> c = CHR 0x0B \<or> c = CHR 0x0C \<or> c = CHR 0x0D)"

fun spec_tokens :: "string \<Rightarrow> string list" where
  "spec_tokens [] = []"
| "spec_tokens (c # cs) =
     (if is_whitespace c then spec_tokens cs
      else (case cs of
              [] \<Rightarrow> [[c]]
            | d # _ \<Rightarrow>
                if is_whitespace d then [c] # spec_tokens cs
                else (case spec_tokens cs of
                        [] \<Rightarrow> [[c]]
                      | w # ws \<Rightarrow> (c # w) # ws)))"

subsection \<open>A sample run\<close>

text \<open>
  The concrete inputs on which the theorems below are tried: alice connects, and then
  joins the room \<open>lobby\<close> with a command; a request whose \<open>username\<close> parameter is empty, and
  one that has none.
\<close>

definition alice :: Request where
  "alice = \<lparr>pathname = ''/chat'', searchParams = [(''username'', ''alice'')]\<rparr>"

definition connected :: server_state where
  "connected = run [Connect alice True] init"

definition in_lobby :: server_state where
  "in_lobby = run [Connect alice True, Message 0 ''/join lobby''] init"

definition nameless :: Request where
  "nameless = \<lparr>pathname = ''/chat'', searchParams = [(''username'', '''')]\<rparr>"

definition absent :: Request where
  "absent = \<lparr>pathname = ''/chat'', searchParams = []\<rparr>"

section \<open>Properties\<close>

subsection \<open>The primitives and the two helpers, field by field\<close>

lemmas prims = console_log_def ws_send_def ws_subscribe_def ws_unsubscribe_def
  server_publish_def rooms_add_def rooms_delete_def rooms_clear_def

lemma set_set_add: "set (set_add x xs) = insert x (set xs)"
  by (auto simp: set_add_def)

lemma set_set_delete: "set (set_delete x xs) = set xs - {x}"
  by (auto simp: set_delete_def)

lemma joinRoom_trace:
  "trace (joinRoom ws roomName s) = trace s @
     [Subscribe ws roomName, RoomsAdd ws roomName,
      Log (''User '' @ username (data s ws) @ '' joined room: '' @ roomName),
      Send ws (''You have joined room: '' @ roomName),
      Publish roomName (username (data s ws) @ '' has joined the room'')]"
  by (simp add: joinRoom_def prims Let_def)

lemma joinRoom_subs: "subs (joinRoom ws roomName s) = insert (ws, roomName) (subs s)"
  by (simp add: joinRoom_def prims Let_def)

lemma joinRoom_data:
  "data (joinRoom ws roomName s) =
     (data s)(ws := (data s ws)\<lparr>rooms := set_add roomName (rooms (data s ws))\<rparr>)"
  by (simp add: joinRoom_def prims Let_def)

lemma joinRoom_next_conn: "next_conn (joinRoom ws roomName s) = next_conn s"
  by (simp add: joinRoom_def prims Let_def)

lemma leaveRoom_trace:
  "trace (leaveRoom ws roomName s) = trace s @
     (if roomName \<in> set (rooms (data s ws))
      then [Unsubscribe ws roomName, RoomsDelete ws roomName,
            Log (''User '' @ username (data s ws) @ '' left room: '' @ roomName),
            Send ws (''You have left room: '' @ roomName),
            Publish roomName (username (data s ws) @ '' has left the room'')]
      else [Send ws (''You are not in room '' @ roomName)])"
  by (simp add: leaveRoom_def prims Let_def set_has_def)

lemma leaveRoom_subs:
  "subs (leaveRoom ws roomName s) =
     (if roomName \<in> set (rooms (data s ws)) then subs s - {(ws, roomName)} else subs s)"
  by (simp add: leaveRoom_def prims Let_def set_has_def)

lemma leaveRoom_data:
  "data (leaveRoom ws roomName s) =
     (if roomName \<in> set (rooms (data s ws))
      then (data s)(ws := (data s ws)\<lparr>rooms := set_delete roomName (rooms (data s ws))\<rparr>)
      else data s)"
  by (simp add: leaveRoom_def prims Let_def set_has_def)

lemma leaveRoom_next_conn: "next_conn (leaveRoom ws roomName s) = next_conn s"
  by (simp add: leaveRoom_def prims Let_def)

subsection \<open>Splitting and joining\<close>

lemma js_split_not_Nil: "js_split sep s \<noteq> []"
  by (induction s) (auto split: list.splits)

lemma js_split_no_sep: "sep \<notin> set w \<Longrightarrow> js_split sep w = [w]"
  by (induction w) auto

lemma js_split_first: "sep \<notin> set w \<Longrightarrow> js_split sep (w @ sep # rest) = w # js_split sep rest"
  by (induction w) auto

lemma js_join_Cons: "js_join sep (x # xs) = (if xs = [] then x else x @ sep @ js_join sep xs)"
  by (cases xs) auto

lemma js_join_split: "js_join [sep] (js_split sep s) = s"
  by (induction s) (auto simp: js_join_Cons js_split_not_Nil split: list.splits)

lemma js_split_piece_no_sep: "p \<in> set (js_split sep s) \<Longrightarrow> sep \<notin> set p"
  by (induction s arbitrary: p) (auto split: if_splits list.splits)

lemma js_split_join:
  "ps \<noteq> [] \<Longrightarrow> \<forall>p\<in>set ps. sep \<notin> set p \<Longrightarrow> js_split sep (js_join [sep] ps) = ps"
proof (induction ps)
  case Nil
  then show ?case by simp
next
  case (Cons p ps)
  show ?case
  proof (cases "ps = []")
    case True
    with Cons.prems show ?thesis by (simp add: js_split_no_sep)
  next
    case False
    with Cons show ?thesis by (simp add: js_join_Cons js_split_first)
  qed
qed

lemma startsWith_slash: "startsWith m ''/'' \<Longrightarrow> m = ''/'' @ drop 1 m"
  by (cases m) (simp_all add: startsWith_def)

subsection \<open>The branches of \<open>message\<close>\<close>

lemma message_plain:
  "\<not> startsWith messageStr ''/'' \<Longrightarrow>
   message ws messageStr s =
     ws_send ws (username (data s ws) @ '': '' @ messageStr)
       (console_log (''Message from '' @ username (data s ws) @ '': '' @ messageStr) s)"
  by (simp add: message_def Let_def prims)

lemma message_join_missing:
  "startsWith messageStr ''/'' \<Longrightarrow> js_split (CHR '' '') (drop 1 messageStr) = command # args \<Longrightarrow>
   toLowerCase command = ''join'' \<Longrightarrow> index0 args = None \<or> index0 args = Some [] \<Longrightarrow>
   message ws messageStr s =
     ws_send ws ''Please specify a room name: /join [room]''
       (console_log (''Message from '' @ username (data s ws) @ '': '' @ messageStr) s)"
  by (auto simp add: message_def Let_def)

lemma message_leave_missing:
  "startsWith messageStr ''/'' \<Longrightarrow> js_split (CHR '' '') (drop 1 messageStr) = command # args \<Longrightarrow>
   toLowerCase command = ''leave'' \<Longrightarrow> index0 args = None \<or> index0 args = Some [] \<Longrightarrow>
   message ws messageStr s =
     ws_send ws ''Please specify a room name: /leave [room]''
       (console_log (''Message from '' @ username (data s ws) @ '': '' @ messageStr) s)"
  by (auto simp add: message_def Let_def)

lemma message_room_missing:
  "startsWith messageStr ''/'' \<Longrightarrow> js_split (CHR '' '') (drop 1 messageStr) = command # args \<Longrightarrow>
   toLowerCase command = ''room'' \<Longrightarrow>
   index0 args = None \<or> index0 args = Some [] \<or> js_join '' '' (drop 1 args) = [] \<Longrightarrow>
   message ws messageStr s =
     ws_send ws ''Please specify a room name and message: /room [room] [message]''
       (console_log (''Message from '' @ username (data s ws) @ '': '' @ messageStr) s)"
  by (auto simp add: message_def Let_def split: option.splits)

lemma message_unknown:
  "startsWith messageStr ''/'' \<Longrightarrow> js_split (CHR '' '') (drop 1 messageStr) = command # args \<Longrightarrow>
   toLowerCase command \<notin> {''join'', ''leave'', ''room'', ''rooms'', ''myrooms''} \<Longrightarrow>
   message ws messageStr s =
     ws_send ws (''Unknown command: '' @ command @
                 ''. Available commands: /join, /leave, /room, /rooms, /myrooms'')
       (console_log (''Message from '' @ username (data s ws) @ '': '' @ messageStr) s)"
  by (simp add: message_def Let_def)

lemma message_room:
  "startsWith messageStr ''/'' \<Longrightarrow> js_split (CHR '' '') (drop 1 messageStr) = command # args \<Longrightarrow>
   toLowerCase command = ''room'' \<Longrightarrow> index0 args = Some roomName \<Longrightarrow> roomName \<noteq> [] \<Longrightarrow>
   js_join '' '' (drop 1 args) = text \<Longrightarrow> text \<noteq> [] \<Longrightarrow>
   message ws messageStr s =
     (let s1 = console_log ''Available rooms : [object Set]''
                 (console_log (''Message from '' @ username (data s ws) @ '': '' @ messageStr) s)
      in if roomName \<in> set (rooms (data s ws))
         then server_publish roomName
                (''['' @ roomName @ ''] '' @ username (data s ws) @ '': '' @ text) s1
         else ws_send ws (''You are not in room '' @ roomName @
                          ''. Join it first with /join '' @ roomName) s1)"
  by (simp add: message_def Let_def prims set_has_def)

lemma message_join_ok:
  "startsWith messageStr ''/'' \<Longrightarrow> js_split (CHR '' '') (drop 1 messageStr) = command # args \<Longrightarrow>
   toLowerCase command = ''join'' \<Longrightarrow> index0 args = Some roomName \<Longrightarrow> roomName \<noteq> [] \<Longrightarrow>
   message ws messageStr s =
     joinRoom ws roomName
       (console_log (''Message from '' @ username (data s ws) @ '': '' @ messageStr) s)"
  by (simp add: message_def Let_def prims)

lemma message_leave_ok:
  "startsWith messageStr ''/'' \<Longrightarrow> js_split (CHR '' '') (drop 1 messageStr) = command # args \<Longrightarrow>
   toLowerCase command = ''leave'' \<Longrightarrow> index0 args = Some roomName \<Longrightarrow> roomName \<noteq> [] \<Longrightarrow>
   message ws messageStr s =
     leaveRoom ws roomName
       (console_log (''Message from '' @ username (data s ws) @ '': '' @ messageStr) s)"
  by (simp add: message_def Let_def prims)

lemma message_rooms:
  "startsWith messageStr ''/'' \<Longrightarrow> js_split (CHR '' '') (drop 1 messageStr) = command # args \<Longrightarrow>
   toLowerCase command = ''rooms'' \<Longrightarrow>
   message ws messageStr s =
     ws_send ws ''To join a room, use: /join [room]''
       (console_log (''Message from '' @ username (data s ws) @ '': '' @ messageStr) s)"
  by (simp add: message_def Let_def prims)

lemma message_myrooms:
  "startsWith messageStr ''/'' \<Longrightarrow> js_split (CHR '' '') (drop 1 messageStr) = command # args \<Longrightarrow>
   toLowerCase command = ''myrooms'' \<Longrightarrow>
   message ws messageStr s =
     ws_send ws
       (if rooms (data s ws) = []
        then ''You have not joined any rooms. Join one with /join [room]''
        else ''Your rooms:'' @ newline @ js_join newline (rooms (data s ws)))
       (console_log (''Message from '' @ username (data s ws) @ '': '' @ messageStr) s)"
  by (simp add: message_def Let_def prims)

lemma replies_onlyI: "replies_only ws reply s (ws_send ws reply (console_log line s))"
  by (simp add: replies_only_def effects_def prims)

text \<open>
  Whatever \<open>message\<close> does is made of log lines, direct sends, publishes and the two
  helpers on the same connection: a property kept by each of these is kept by \<open>message\<close>.
\<close>

lemma message_cases:
  assumes "P s"
    and "\<And>x s. P s \<Longrightarrow> P (console_log x s)"
    and "\<And>x s. P s \<Longrightarrow> P (ws_send ws x s)"
    and "\<And>t x s. P s \<Longrightarrow> P (server_publish t x s)"
    and "\<And>r s. P s \<Longrightarrow> P (joinRoom ws r s)"
    and "\<And>r s. P s \<Longrightarrow> P (leaveRoom ws r s)"
  shows "P (message ws messageStr s)"
  unfolding message_def Let_def
  by (auto split: list.splits option.splits intro!: assms)

lemma message_next_conn: "next_conn (message ws m s) = next_conn s"
  by (rule message_cases [where P = "\<lambda>s'. next_conn s' = next_conn s"])
     (simp_all add: joinRoom_next_conn leaveRoom_next_conn prims)

lemma message_data_other: "c \<noteq> ws \<Longrightarrow> data (message ws m s) c = data s c"
  by (rule message_cases [where P = "\<lambda>s'. data s' c = data s c"])
     (simp_all add: joinRoom_data leaveRoom_data prims)

lemma message_username: "username (data (message ws m s) c) = username (data s c)"
  by (rule message_cases [where P = "\<lambda>s'. username (data s' c) = username (data s c)"])
     (auto simp: joinRoom_data leaveRoom_data prims)

subsection \<open>The loop of \<open>close\<close>\<close>

lemma close_loop_trace:
  "trace (close_loop ws rs s) = trace s @
     concat (map (\<lambda>r. [Publish r (username (data s ws) @ '' has left the room (disconnected)''),
                         Unsubscribe ws r]) rs)"
  by (induction rs arbitrary: s) (simp_all add: prims)

lemma close_loop_data: "data (close_loop ws rs s) = data s"
  by (induction rs arbitrary: s) (simp_all add: prims)

lemma close_loop_next_conn: "next_conn (close_loop ws rs s) = next_conn s"
  by (induction rs arbitrary: s) (simp_all add: prims)

lemma close_loop_subs: "subs (close_loop ws rs s) = subs s - {ws} \<times> set rs"
  by (induction rs arbitrary: s) (auto simp: prims)

lemma close_trace:
  "trace (close ws s) = trace s @ [Log (''User '' @ username (data s ws) @ '' disconnected'')] @
     concat (map (\<lambda>r. [Publish r (username (data s ws) @ '' has left the room (disconnected)''),
                         Unsubscribe ws r]) (rooms (data s ws))) @ [RoomsClear ws]"
  by (simp add: close_def Let_def close_loop_trace close_loop_data prims)

lemma close_data: "data (close ws s) = (data s)(ws := (data s ws)\<lparr>rooms := []\<rparr>)"
  by (simp add: close_def Let_def close_loop_data prims)

lemma close_subs: "subs (close ws s) = subs s - {ws} \<times> set (rooms (data s ws))"
  by (simp add: close_def Let_def close_loop_subs close_loop_data prims)

lemma close_next_conn: "next_conn (close ws s) = next_conn s"
  by (simp add: close_def Let_def close_loop_next_conn prims)

subsection \<open>The invariants hold in every state the server reaches\<close>

lemma consistent_joinRoom: "consistent s \<Longrightarrow> consistent (joinRoom ws r s)"
  by (auto simp: consistent_def joinRoom_data joinRoom_subs set_set_add)

lemma consistent_leaveRoom: "consistent s \<Longrightarrow> consistent (leaveRoom ws r s)"
  by (auto simp: consistent_def leaveRoom_data leaveRoom_subs set_set_delete)

lemma consistent_close: "consistent s \<Longrightarrow> consistent (close ws s)"
  by (auto simp: consistent_def close_data close_subs)

lemma consistent_message: "consistent s \<Longrightarrow> consistent (message ws m s)"
  by (rule message_cases)
     (simp_all add: consistent_joinRoom consistent_leaveRoom, simp_all add: consistent_def prims)

lemma fetch_cases:
  "fetch req ok s =
     (if pathname req = ''/chat'' \<and> ok
      then (None, (console_log ''WebSocket upgrade request received'' s)
              \<lparr>data := (data s)(next_conn s := \<lparr>username = getUsernameFromReq req, rooms = []\<rparr>),
                next_conn := Suc (next_conn s)\<rparr>)
      else if pathname req = ''/chat''
      then (Some (Response ''WebSocket upgrade error'' 400),
            console_log ''WebSocket upgrade request received'' s)
      else (Some (Response ''Simple WebSocket Server'' 200), s))"
  by (simp add: fetch_def server_upgrade_def Let_def prims)

lemma open_ws_fields:
  "data (open_ws ws s) = data s" "subs (open_ws ws s) = subs s"
  "next_conn (open_ws ws s) = next_conn s"
  by (simp_all add: open_ws_def Let_def prims)

lemma getUsernameFromReq_not_empty: "getUsernameFromReq req \<noteq> []"
  by (simp add: getUsernameFromReq_def split: option.splits)

lemma step_Connect:
  "step (Connect req ok) s =
     (if pathname req = ''/chat'' \<and> ok
      then open_ws (next_conn s)
             ((console_log ''WebSocket upgrade request received'' s)
                \<lparr>data := (data s)(next_conn s := \<lparr>username = getUsernameFromReq req, rooms = []\<rparr>),
                  next_conn := Suc (next_conn s)\<rparr>)
      else if pathname req = ''/chat''
      then console_log ''WebSocket upgrade request received'' s
      else s)"
  by (simp add: fetch_cases)

lemma step_Connect_data:
  "data (step (Connect req ok) s) =
     (if pathname req = ''/chat'' \<and> ok
      then (data s)(next_conn s := \<lparr>username = getUsernameFromReq req, rooms = []\<rparr>)
      else data s)"
  unfolding step_Connect by (simp add: open_ws_fields prims)

lemma step_Connect_subs: "subs (step (Connect req ok) s) = subs s"
  unfolding step_Connect by (simp add: open_ws_fields prims)

lemma step_Connect_next_conn:
  "next_conn (step (Connect req ok) s) =
     (if pathname req = ''/chat'' \<and> ok then Suc (next_conn s) else next_conn s)"
  unfolding step_Connect by (simp add: open_ws_fields prims)

lemmas step_Connect_fields = step_Connect_data step_Connect_subs step_Connect_next_conn

lemma step_consistent:
  assumes "consistent s" and "unused_empty s"
  shows "consistent (step i s)"
proof (cases i)
  case (Connect req ok)
  have "(next_conn s, r) \<notin> subs s" for r
  proof -
    have "rooms (data s (next_conn s)) = []"
      using assms(2) by (simp add: unused_empty_def)
    moreover have "(r \<in> set (rooms (data s (next_conn s)))) = ((next_conn s, r) \<in> subs s)"
      using assms(1) by (simp add: consistent_def)
    ultimately show ?thesis by simp
  qed
  with assms(1) show ?thesis unfolding Connect
    by (auto simp: consistent_def step_Connect_fields simp del: step.simps(1))
qed (simp_all add: assms consistent_message consistent_close consistent_joinRoom
       consistent_leaveRoom)

lemma step_unused_empty:
  assumes "unused_empty s"
  shows "unused_empty (step i s)"
proof (cases i)
  case (Connect req ok)
  with assms show ?thesis
    by (auto simp: unused_empty_def step_Connect_fields simp del: step.simps(1))
next
  case (Message ws m)
  with assms show ?thesis
    by (auto simp: unused_empty_def message_next_conn message_data_other)
next
  case (Close ws)
  with assms show ?thesis by (auto simp: unused_empty_def close_next_conn close_data)
next
  case (Join ws r)
  with assms show ?thesis by (auto simp: unused_empty_def joinRoom_next_conn joinRoom_data)
next
  case (Leave ws r)
  with assms show ?thesis by (auto simp: unused_empty_def leaveRoom_next_conn leaveRoom_data)
qed

lemma step_named:
  assumes "named s"
  shows "named (step i s)"
proof (cases i)
  case (Connect req ok)
  with assms show ?thesis
    by (auto simp: named_def step_Connect_fields getUsernameFromReq_not_empty less_Suc_eq
          simp del: step.simps(1))
next
  case (Message ws m)
  with assms show ?thesis
    by (auto simp: named_def message_next_conn message_username)
next
  case (Close ws)
  with assms show ?thesis by (auto simp: named_def close_next_conn close_data)
next
  case (Join ws r)
  with assms show ?thesis by (auto simp: named_def joinRoom_next_conn joinRoom_data)
next
  case (Leave ws r)
  with assms show ?thesis by (auto simp: named_def leaveRoom_next_conn leaveRoom_data)
qed

lemma run_invariants:
  "consistent s \<Longrightarrow> unused_empty s \<Longrightarrow> named s \<Longrightarrow>
   consistent (run is s) \<and> unused_empty (run is s) \<and> named (run is s)"
  by (induction "is" arbitrary: s) (simp_all add: step_consistent step_unused_empty step_named)

lemma init_invariants: "consistent init" "unused_empty init" "named init"
  by (simp_all add: consistent_def unused_empty_def named_def init_def)

lemma reachable_invariants:
  "consistent (run is init)" "unused_empty (run is init)" "named (run is init)"
  using run_invariants [OF init_invariants] by simp_all

subsection \<open>What the protocol does, step by step\<close>

lemma effects_append_simps:
  "effects (console_log x s) = effects s"
  "effects (ws_send ws x s) = effects s @ [Send ws x]"
  "effects (server_publish t x s) = effects s @ [Publish t x]"
  by (simp_all add: effects_def prims)

lemma joinRoom_effects:
  "effects (joinRoom ws roomName s) = effects s @
     [Subscribe ws roomName, RoomsAdd ws roomName,
      Send ws (''You have joined room: '' @ roomName),
      Publish roomName (username (data s ws) @ '' has joined the room'')]"
  by (simp add: effects_def joinRoom_trace)

lemma message_room_effects:
  assumes "startsWith messageStr ''/''"
    and "js_split (CHR '' '') (drop 1 messageStr) = command # args"
    and "toLowerCase command = ''room''"
    and "index0 args = Some roomName" and "roomName \<noteq> []"
    and "js_join '' '' (drop 1 args) = text" and "text \<noteq> []"
  shows "effects (message ws messageStr s) = effects s @
           [if roomName \<in> set (rooms (data s ws))
            then Publish roomName (''['' @ roomName @ ''] '' @ username (data s ws) @ '': '' @ text)
            else Send ws (''You are not in room '' @ roomName @
                          ''. Join it first with /join '' @ roomName)]"
    and "data (message ws messageStr s) = data s"
    and "subs (message ws messageStr s) = subs s"
    and "next_conn (message ws messageStr s) = next_conn s"
  unfolding message_room [OF assms]
  by (simp_all add: Let_def effects_def prims)

subsection \<open>The sample run\<close>

lemma connected_fields:
  "data connected 0 = \<lparr>username = ''alice'', rooms = []\<rparr>"
  "next_conn connected = 1"
  "subs connected = {}"
  by (simp_all add: connected_def step_Connect_fields alice_def init_def
        getUsernameFromReq_def searchParams_get_def del: step.simps(1))

lemma in_lobby_eq:
  "in_lobby = joinRoom 0 ''lobby'' (console_log ''Message from alice: /join lobby'' connected)"
  using connected_fields
  by (simp add: in_lobby_def connected_def message_def startsWith_def index0_def
        toLowerCase_def lower_char_def Let_def del: step.simps(1))

lemma in_lobby_fields:
  "data in_lobby 0 = \<lparr>username = ''alice'', rooms = [''lobby'']\<rparr>"
  "next_conn in_lobby = 1"
  "subs in_lobby = {(0, ''lobby'')}"
  by (simp_all add: in_lobby_eq joinRoom_data joinRoom_subs joinRoom_next_conn
        connected_fields prims set_add_def)

section \<open>The claims\<close>

text \<open>
  C1. In every state the server reaches, whatever was connected, sent, joined, left or
  closed before, a room is in the room set of a connection if and only if the connection
  is subscribed to the topic of that name. In particular, after \<open>joinRoom\<close> the room is
  in the set and the connection is subscribed, and after \<open>leaveRoom\<close> (on a room that was
  in the set, in any state; on any room, in a state the server reaches) neither holds.
\<close>

theorem membership_matches_subscription:
  "((r \<in> set (rooms (data (run inputs init) c))) = ((c, r) \<in> subs (run inputs init))) \<and>
   (r \<in> set (rooms (data (joinRoom c r s) c)) \<and> (c, r) \<in> subs (joinRoom c r s)) \<and>
   (r \<in> set (rooms (data s c)) \<longrightarrow>
      r \<notin> set (rooms (data (leaveRoom c r s) c)) \<and> (c, r) \<notin> subs (leaveRoom c r s)) \<and>
   (r \<notin> set (rooms (data (leaveRoom c r (run inputs init)) c)) \<and>
    (c, r) \<notin> subs (leaveRoom c r (run inputs init)))"
proof -
  have inv: "(r \<in> set (rooms (data (run inputs init) c))) = ((c, r) \<in> subs (run inputs init))"
    using reachable_invariants(1) [of inputs] by (simp add: consistent_def)
  have join: "r \<in> set (rooms (data (joinRoom c r s) c)) \<and> (c, r) \<in> subs (joinRoom c r s)"
    by (simp add: joinRoom_data joinRoom_subs set_set_add)
  have leave: "r \<notin> set (rooms (data (leaveRoom c r s) c)) \<and> (c, r) \<notin> subs (leaveRoom c r s)"
    if "r \<in> set (rooms (data s c))"
    using that by (simp add: leaveRoom_data leaveRoom_subs set_set_delete)
  have leave': "r \<notin> set (rooms (data (leaveRoom c r (run inputs init)) c)) \<and>
    (c, r) \<notin> subs (leaveRoom c r (run inputs init))"
    using inv by (simp add: leaveRoom_data leaveRoom_subs set_set_delete)
  show ?thesis using inv join leave leave' by blast
qed

theorem membership_matches_subscription_witness:
  "''lobby'' \<in> set (rooms (data in_lobby 0)) \<and> (0, ''lobby'') \<in> subs in_lobby \<and>
   ''lobby'' \<notin> set (rooms (data (leaveRoom 0 ''lobby'' in_lobby) 0)) \<and>
   (0, ''lobby'') \<notin> subs (leaveRoom 0 ''lobby'' in_lobby) \<and>
   ''lobby'' \<in> set (rooms (data (joinRoom 0 ''lobby'' connected) 0)) \<and>
   (0, ''lobby'') \<in> subs (joinRoom 0 ''lobby'' connected)"
  using membership_matches_subscription
          [of "''lobby''" "[Connect alice True, Message 0 ''/join lobby'']" 0 in_lobby]
        membership_matches_subscription
          [of "''lobby''" "[Connect alice True, Message 0 ''/join lobby'']" 0 connected]
  by (simp add: in_lobby_fields flip: in_lobby_def)

text \<open>
  C2. For every connection and every room name, \<open>joinRoom\<close> does exactly this, in this
  order: it subscribes the connection to the topic of the room's name, adds the room to
  the connection's room set, sends \<open>You have joined room: {room}\<close> to the connection
  itself, and publishes \<open>{username} has joined the room\<close> to the room. (The subscription
  table and the room set afterwards are the old ones with the room added.)
\<close>

theorem joinRoom_effects_in_order:
  "effects (joinRoom ws roomName s) = effects s @
     [Subscribe ws roomName, RoomsAdd ws roomName,
      Send ws (''You have joined room: '' @ roomName),
      Publish roomName (username (data s ws) @ '' has joined the room'')] \<and>
   subs (joinRoom ws roomName s) = insert (ws, roomName) (subs s) \<and>
   rooms (data (joinRoom ws roomName s) ws) = set_add roomName (rooms (data s ws))"
  by (simp add: joinRoom_effects joinRoom_subs joinRoom_data)

theorem joinRoom_effects_in_order_witness:
  "effects (joinRoom 0 ''lobby'' connected) = effects connected @
     [Subscribe 0 ''lobby'', RoomsAdd 0 ''lobby'',
      Send 0 ''You have joined room: lobby'',
      Publish ''lobby'' ''alice has joined the room''] \<and>
   subs (joinRoom 0 ''lobby'' connected) = {(0, ''lobby'')} \<and>
   rooms (data (joinRoom 0 ''lobby'' connected) 0) = [''lobby'']"
  using joinRoom_effects_in_order [of 0 "''lobby''" connected]
  by (simp add: connected_fields set_add_def)

text \<open>
  C3. When the room is not in the connection's room set, \<open>leaveRoom\<close> only sends
  \<open>You are not in room {room}\<close> to the connection: nothing is published, and the room
  sets and the subscriptions stay as they were.
\<close>

theorem leaveRoom_not_joined:
  "roomName \<notin> set (rooms (data s ws)) \<Longrightarrow>
   replies_only ws (''You are not in room '' @ roomName) s (leaveRoom ws roomName s)"
  by (simp add: replies_only_def effects_def leaveRoom_trace leaveRoom_data leaveRoom_subs
        leaveRoom_next_conn)

theorem leaveRoom_not_joined_witness:
  "''lobby'' \<notin> set (rooms (data connected 0)) \<and>
   replies_only 0 ''You are not in room lobby'' connected (leaveRoom 0 ''lobby'' connected)"
  using leaveRoom_not_joined [of "''lobby''" connected 0]
  by (simp add: connected_fields)

text \<open>
  C4. A \<open>room\<close> command that carries a room name and a text that is not empty publishes
  \<open>[{room}] {username}: {text}\<close> to the room if and only if the room is in the sender's
  room set; when it is not, the only thing done is the reply
  \<open>You are not in room {room}. Join it first with /join {room}\<close> to the sender. The room
  sets and the subscriptions are unchanged either way.
\<close>

theorem room_message_guard:
  assumes "startsWith messageStr ''/''"
    and "js_split (CHR '' '') (drop 1 messageStr) = command # args"
    and "toLowerCase command = ''room''"
    and "index0 args = Some roomName" and "roomName \<noteq> []"
    and "js_join '' '' (drop 1 args) = text" and "text \<noteq> []"
  shows "effects (message ws messageStr s) = effects s @
           [if roomName \<in> set (rooms (data s ws))
            then Publish roomName (''['' @ roomName @ ''] '' @ username (data s ws) @ '': '' @ text)
            else Send ws (''You are not in room '' @ roomName @
                          ''. Join it first with /join '' @ roomName)] \<and>
         data (message ws messageStr s) = data s \<and>
         subs (message ws messageStr s) = subs s"
  using message_room_effects [OF assms] by simp

theorem room_message_guard_witness:
  "startsWith ''/room lobby hi there'' ''/'' \<and>
   js_split (CHR '' '') (drop 1 ''/room lobby hi there'') = ''room'' # [''lobby'', ''hi'', ''there''] \<and>
   toLowerCase ''room'' = ''room'' \<and>
   index0 [''lobby'', ''hi'', ''there''] = Some ''lobby'' \<and>
   js_join '' '' (drop 1 [''lobby'', ''hi'', ''there'']) = ''hi there'' \<and>
   effects (message 0 ''/room lobby hi there'' in_lobby) =
     effects in_lobby @ [Publish ''lobby'' ''[lobby] alice: hi there''] \<and>
   effects (message 0 ''/room lobby hi there'' connected) =
     effects connected @ [Send 0 ''You are not in room lobby. Join it first with /join lobby''] \<and>
   data (message 0 ''/room lobby hi there'' in_lobby) = data in_lobby \<and>
   subs (message 0 ''/room lobby hi there'' in_lobby) = subs in_lobby \<and>
   data (message 0 ''/room lobby hi there'' connected) = data connected \<and>
   subs (message 0 ''/room lobby hi there'' connected) = subs connected"
proof -
  have 1: "startsWith ''/room lobby hi there'' ''/''"
    by (simp add: startsWith_def)
  have 2: "js_split (CHR '' '') (drop 1 ''/room lobby hi there'') = ''room'' # [''lobby'', ''hi'', ''there'']"
    by simp
  have 3: "toLowerCase ''room'' = ''room''"
    by (simp add: toLowerCase_def lower_char_def)
  have 4: "index0 [''lobby'', ''hi'', ''there''] = Some ''lobby''"
    by (simp add: index0_def)
  have 5: "js_join '' '' (drop 1 [''lobby'', ''hi'', ''there'']) = ''hi there''"
    by simp
  have 6: "''lobby'' \<noteq> []" "''hi there'' \<noteq> []"
    by simp_all
  from room_message_guard [OF 1 2 3 4 6(1) 5 6(2), of 0 in_lobby]
       room_message_guard [OF 1 2 3 4 6(1) 5 6(2), of 0 connected]
       1 2 3 4 5
  show ?thesis
    by (simp add: in_lobby_fields connected_fields)
qed

text \<open>
  C5. The \<open>close\<close> hook goes through the rooms of the connection's room set: for each it
  publishes \<open>{username} has left the room (disconnected)\<close> to the room and then
  unsubscribes the connection from it; afterwards the room set is empty and the
  connection is subscribed to none of these rooms. Nothing is sent to a connection
  directly.
\<close>

theorem close_leaves_every_room:
  "effects (close ws s) = effects s @
     concat (map (\<lambda>r. [Publish r (username (data s ws) @ '' has left the room (disconnected)''),
                         Unsubscribe ws r]) (rooms (data s ws))) @ [RoomsClear ws] \<and>
   rooms (data (close ws s) ws) = [] \<and>
   subs (close ws s) = subs s - {ws} \<times> set (rooms (data s ws)) \<and>
   (\<forall>c msg. Send c msg \<notin> set (drop (length (effects s)) (effects (close ws s))))"
proof -
  have eff: "effects (close ws s) = effects s @
     concat (map (\<lambda>r. [Publish r (username (data s ws) @ '' has left the room (disconnected)''),
                         Unsubscribe ws r]) (rooms (data s ws))) @ [RoomsClear ws]"
    by (simp add: effects_def close_trace filter_concat comp_def)
  have "\<forall>c msg. Send c msg \<notin> set (drop (length (effects s)) (effects (close ws s)))"
    unfolding eff by auto
  with eff show ?thesis
    by (simp add: close_data close_subs)
qed

theorem close_leaves_every_room_witness:
  "effects (close 0 in_lobby) = effects in_lobby @
     [Publish ''lobby'' ''alice has left the room (disconnected)'', Unsubscribe 0 ''lobby'',
      RoomsClear 0] \<and>
   rooms (data (close 0 in_lobby) 0) = [] \<and>
   subs (close 0 in_lobby) = {}"
  using close_leaves_every_room [of 0 in_lobby]
  by (simp add: in_lobby_fields)

text \<open>
  C6, as the code has it. The text after the leading \<open>/\<close> is cut at every single space
  character: no other whitespace separates, and two spaces in a row enclose an empty
  piece. So no piece holds a space, the pieces joined with single spaces are the text
  again, and pieces without a space, joined with single spaces, are cut into themselves.
  The first piece is the command name, matched without regard to case, and the pieces
  after it are the arguments: whatever the case of its letters, \<open>join\<close> and \<open>leave\<close> act
  on their first argument, \<open>room\<close> takes its first argument for the room name and the
  pieces after it, joined again with single spaces, for the message body (the rest of
  the line, character for character), \<open>rooms\<close> and \<open>myrooms\<close> give their answers, and
  any other name is answered as unknown.
\<close>

theorem command_grammar:
  assumes "startsWith messageStr ''/''"
    and "js_split (CHR '' '') (drop 1 messageStr) = command # args"
  shows
   "CHR '' '' \<notin> set command \<and> (\<forall>a\<in>set args. CHR '' '' \<notin> set a) \<and>
    messageStr = ''/'' @ js_join '' '' (command # args) \<and>
    (args = roomName # others \<and> others \<noteq> [] \<longrightarrow>
       messageStr = ''/'' @ command @ '' '' @ roomName @ '' '' @ js_join '' '' (drop 1 args)) \<and>
    (ps \<noteq> [] \<and> (\<forall>p\<in>set ps. CHR '' '' \<notin> set p) \<longrightarrow>
       js_split (CHR '' '') (js_join '' '' ps) = ps) \<and>
    js_join '' '' (js_split (CHR '' '') body) = body \<and>
    (toLowerCase command = ''join'' \<and> index0 args = Some roomName \<and> roomName \<noteq> [] \<longrightarrow>
       message ws messageStr s =
         joinRoom ws roomName
           (console_log (''Message from '' @ username (data s ws) @ '': '' @ messageStr) s)) \<and>
    (toLowerCase command = ''join'' \<and> (index0 args = None \<or> index0 args = Some []) \<longrightarrow>
       message ws messageStr s =
         ws_send ws ''Please specify a room name: /join [room]''
           (console_log (''Message from '' @ username (data s ws) @ '': '' @ messageStr) s)) \<and>
    (toLowerCase command = ''leave'' \<and> index0 args = Some roomName \<and> roomName \<noteq> [] \<longrightarrow>
       message ws messageStr s =
         leaveRoom ws roomName
           (console_log (''Message from '' @ username (data s ws) @ '': '' @ messageStr) s)) \<and>
    (toLowerCase command = ''leave'' \<and> (index0 args = None \<or> index0 args = Some []) \<longrightarrow>
       message ws messageStr s =
         ws_send ws ''Please specify a room name: /leave [room]''
           (console_log (''Message from '' @ username (data s ws) @ '': '' @ messageStr) s)) \<and>
    (toLowerCase command = ''room'' \<and> index0 args = Some roomName \<and> roomName \<noteq> [] \<and>
     js_join '' '' (drop 1 args) \<noteq> [] \<longrightarrow>
       message ws messageStr s =
         (if roomName \<in> set (rooms (data s ws))
          then server_publish roomName
                 (''['' @ roomName @ ''] '' @ username (data s ws) @ '': '' @
                  js_join '' '' (drop 1 args))
          else ws_send ws (''You are not in room '' @ roomName @
                           ''. Join it first with /join '' @ roomName))
           (console_log ''Available rooms : [object Set]''
              (console_log (''Message from '' @ username (data s ws) @ '': '' @ messageStr) s))) \<and>
    (toLowerCase command = ''room'' \<and>
     (index0 args = None \<or> index0 args = Some [] \<or> js_join '' '' (drop 1 args) = []) \<longrightarrow>
       message ws messageStr s =
         ws_send ws ''Please specify a room name and message: /room [room] [message]''
           (console_log (''Message from '' @ username (data s ws) @ '': '' @ messageStr) s)) \<and>
    (toLowerCase command = ''rooms'' \<longrightarrow>
       message ws messageStr s =
         ws_send ws ''To join a room, use: /join [room]''
           (console_log (''Message from '' @ username (data s ws) @ '': '' @ messageStr) s)) \<and>
    (toLowerCase command = ''myrooms'' \<longrightarrow>
       message ws messageStr s =
         ws_send ws
           (if rooms (data s ws) = []
            then ''You have not joined any rooms. Join one with /join [room]''
            else ''Your rooms:'' @ newline @ js_join newline (rooms (data s ws)))
           (console_log (''Message from '' @ username (data s ws) @ '': '' @ messageStr) s)) \<and>
    (toLowerCase command \<notin> {''join'', ''leave'', ''room'', ''rooms'', ''myrooms''} \<longrightarrow>
       message ws messageStr s =
         ws_send ws (''Unknown command: '' @ command @
                     ''. Available commands: /join, /leave, /room, /rooms, /myrooms'')
           (console_log (''Message from '' @ username (data s ws) @ '': '' @ messageStr) s))"
proof -
  have pieces: "CHR '' '' \<notin> set p" if "p \<in> set (command # args)" for p
    using that js_split_piece_no_sep [of p "CHR '' ''" "drop 1 messageStr"] assms(2) by simp
  have c1: "CHR '' '' \<notin> set command"
    using pieces by simp
  have c2: "\<forall>a\<in>set args. CHR '' '' \<notin> set a"
    using pieces by simp
  have "js_join '' '' (command # args) = drop 1 messageStr"
    using js_join_split [of "CHR '' ''" "drop 1 messageStr"] assms(2) by simp
  then have c3: "messageStr = ''/'' @ js_join '' '' (command # args)"
    using startsWith_slash [OF assms(1)] by simp
  have c4: "args = roomName # others \<and> others \<noteq> [] \<longrightarrow>
       messageStr = ''/'' @ command @ '' '' @ roomName @ '' '' @ js_join '' '' (drop 1 args)"
  proof
    assume "args = roomName # others \<and> others \<noteq> []"
    then have "js_join '' '' (command # args) =
        command @ '' '' @ roomName @ '' '' @ js_join '' '' (drop 1 args)"
      by (simp add: js_join_Cons)
    with c3 show "messageStr =
        ''/'' @ command @ '' '' @ roomName @ '' '' @ js_join '' '' (drop 1 args)"
      by simp
  qed
  have c5: "ps \<noteq> [] \<and> (\<forall>p\<in>set ps. CHR '' '' \<notin> set p) \<longrightarrow>
       js_split (CHR '' '') (js_join '' '' ps) = ps"
    using js_split_join [of ps "CHR '' ''"] by simp
  have c6: "js_join '' '' (js_split (CHR '' '') body) = body"
    using js_join_split [of "CHR '' ''" body] by simp
  have c7: "toLowerCase command = ''join'' \<and> index0 args = Some roomName \<and> roomName \<noteq> [] \<longrightarrow>
       message ws messageStr s =
         joinRoom ws roomName
           (console_log (''Message from '' @ username (data s ws) @ '': '' @ messageStr) s)"
    using message_join_ok [OF assms, of roomName ws s] by simp
  have c8: "toLowerCase command = ''join'' \<and> (index0 args = None \<or> index0 args = Some []) \<longrightarrow>
       message ws messageStr s =
         ws_send ws ''Please specify a room name: /join [room]''
           (console_log (''Message from '' @ username (data s ws) @ '': '' @ messageStr) s)"
    using message_join_missing [OF assms, of ws s] by simp
  have c9: "toLowerCase command = ''leave'' \<and> index0 args = Some roomName \<and> roomName \<noteq> [] \<longrightarrow>
       message ws messageStr s =
         leaveRoom ws roomName
           (console_log (''Message from '' @ username (data s ws) @ '': '' @ messageStr) s)"
    using message_leave_ok [OF assms, of roomName ws s] by simp
  have c10: "toLowerCase command = ''leave'' \<and> (index0 args = None \<or> index0 args = Some []) \<longrightarrow>
       message ws messageStr s =
         ws_send ws ''Please specify a room name: /leave [room]''
           (console_log (''Message from '' @ username (data s ws) @ '': '' @ messageStr) s)"
    using message_leave_missing [OF assms, of ws s] by simp
  have c11: "toLowerCase command = ''room'' \<and> index0 args = Some roomName \<and> roomName \<noteq> [] \<and>
     js_join '' '' (drop 1 args) \<noteq> [] \<longrightarrow>
       message ws messageStr s =
         (if roomName \<in> set (rooms (data s ws))
          then server_publish roomName
                 (''['' @ roomName @ ''] '' @ username (data s ws) @ '': '' @
                  js_join '' '' (drop 1 args))
          else ws_send ws (''You are not in room '' @ roomName @
                           ''. Join it first with /join '' @ roomName))
           (console_log ''Available rooms : [object Set]''
              (console_log (''Message from '' @ username (data s ws) @ '': '' @ messageStr) s))"
  proof
    assume h: "toLowerCase command = ''room'' \<and> index0 args = Some roomName \<and> roomName \<noteq> [] \<and>
      js_join '' '' (drop 1 args) \<noteq> []"
    then have "toLowerCase command = ''room''" "index0 args = Some roomName" "roomName \<noteq> []"
      "js_join '' '' (drop 1 args) \<noteq> []"
      by simp_all
    from message_room [OF assms this(1-3) refl this(4), of ws s]
    show "message ws messageStr s =
         (if roomName \<in> set (rooms (data s ws))
          then server_publish roomName
                 (''['' @ roomName @ ''] '' @ username (data s ws) @ '': '' @
                  js_join '' '' (drop 1 args))
          else ws_send ws (''You are not in room '' @ roomName @
                           ''. Join it first with /join '' @ roomName))
           (console_log ''Available rooms : [object Set]''
              (console_log (''Message from '' @ username (data s ws) @ '': '' @ messageStr) s))"
      by (simp add: Let_def)
  qed
  have c12: "toLowerCase command = ''room'' \<and>
     (index0 args = None \<or> index0 args = Some [] \<or> js_join '' '' (drop 1 args) = []) \<longrightarrow>
       message ws messageStr s =
         ws_send ws ''Please specify a room name and message: /room [room] [message]''
           (console_log (''Message from '' @ username (data s ws) @ '': '' @ messageStr) s)"
    using message_room_missing [OF assms, of ws s] by simp
  have c13: "toLowerCase command = ''rooms'' \<longrightarrow>
       message ws messageStr s =
         ws_send ws ''To join a room, use: /join [room]''
           (console_log (''Message from '' @ username (data s ws) @ '': '' @ messageStr) s)"
    using message_rooms [OF assms, of ws s] by simp
  have c14: "toLowerCase command = ''myrooms'' \<longrightarrow>
       message ws messageStr s =
         ws_send ws
           (if rooms (data s ws) = []
            then ''You have not joined any rooms. Join one with /join [room]''
            else ''Your rooms:'' @ newline @ js_join newline (rooms (data s ws)))
           (console_log (''Message from '' @ username (data s ws) @ '': '' @ messageStr) s)"
    using message_myrooms [OF assms, of ws s] by simp
  have c15: "toLowerCase command \<notin> {''join'', ''leave'', ''room'', ''rooms'', ''myrooms''} \<longrightarrow>
       message ws messageStr s =
         ws_send ws (''Unknown command: '' @ command @
                     ''. Available commands: /join, /leave, /room, /rooms, /myrooms'')
           (console_log (''Message from '' @ username (data s ws) @ '': '' @ messageStr) s)"
    using message_unknown [OF assms, of ws s] by simp
  show ?thesis
    by (intro conjI) (rule c1 c2 c3 c4 c5 c6 c7 c8 c9 c10 c11 c12 c13 c14 c15)+
qed

theorem command_grammar_witness:
  "startsWith ''/RoOm lobby hi  there'' ''/'' \<and>
   js_split (CHR '' '') (drop 1 ''/RoOm lobby hi  there'') =
     ''RoOm'' # [''lobby'', ''hi'', [], ''there''] \<and>
   toLowerCase ''RoOm'' = ''room'' \<and>
   js_join '' '' (drop 1 [''lobby'', ''hi'', [], ''there'']) = ''hi  there'' \<and>
   js_split (CHR '' '') (js_join '' '' [''join'', ''lobby'']) = [''join'', ''lobby''] \<and>
   message 0 ''/RoOm lobby hi  there'' in_lobby =
     server_publish ''lobby'' ''[lobby] alice: hi  there''
       (console_log ''Available rooms : [object Set]''
          (console_log ''Message from alice: /RoOm lobby hi  there'' in_lobby)) \<and>
   message 0 ''/JOIN lobby'' connected =
     joinRoom 0 ''lobby'' (console_log ''Message from alice: /JOIN lobby'' connected) \<and>
   message 0 ''/Leave lobby'' in_lobby =
     leaveRoom 0 ''lobby'' (console_log ''Message from alice: /Leave lobby'' in_lobby) \<and>
   message 0 ''/ROOMS'' in_lobby =
     ws_send 0 ''To join a room, use: /join [room]''
       (console_log ''Message from alice: /ROOMS'' in_lobby) \<and>
   message 0 ''/MyRooms'' in_lobby =
     ws_send 0 (''Your rooms:'' @ newline @ ''lobby'')
       (console_log ''Message from alice: /MyRooms'' in_lobby)"
proof -
  have starts: "startsWith (CHR ''/'' # t) ''/''" for t
    by (simp add: startsWith_def)
  have room_split: "js_split (CHR '' '') (drop 1 ''/RoOm lobby hi  there'') =
      ''RoOm'' # [''lobby'', ''hi'', [], ''there'']"
    by simp
  have room_lower: "toLowerCase ''RoOm'' = ''room''"
    by (simp add: toLowerCase_def lower_char_def)
  have room_body: "js_join '' '' (drop 1 [''lobby'', ''hi'', [], ''there'']) = ''hi  there''"
    by simp
  have room:
    "js_split (CHR '' '') (js_join '' '' [''join'', ''lobby'']) = [''join'', ''lobby''] \<and>
     message 0 ''/RoOm lobby hi  there'' in_lobby =
       server_publish ''lobby'' ''[lobby] alice: hi  there''
         (console_log ''Available rooms : [object Set]''
            (console_log ''Message from alice: /RoOm lobby hi  there'' in_lobby))"
    using command_grammar [OF starts room_split, of "''lobby''" "[''hi'', [], ''there'']"
        "[''join'', ''lobby'']" "''hi  there''" 0 in_lobby]
    by (simp add: room_lower index0_def in_lobby_fields)
  have join_split: "js_split (CHR '' '') (drop 1 ''/JOIN lobby'') = ''JOIN'' # [''lobby'']"
    by simp
  have join_lower: "toLowerCase ''JOIN'' = ''join''"
    by (simp add: toLowerCase_def lower_char_def)
  have join: "message 0 ''/JOIN lobby'' connected =
      joinRoom 0 ''lobby'' (console_log ''Message from alice: /JOIN lobby'' connected)"
    using command_grammar [OF starts join_split, of "''lobby''" "[]" "[]" "[]" 0 connected]
    by (simp add: join_lower index0_def connected_fields)
  have leave_split: "js_split (CHR '' '') (drop 1 ''/Leave lobby'') = ''Leave'' # [''lobby'']"
    by simp
  have leave_lower: "toLowerCase ''Leave'' = ''leave''"
    by (simp add: toLowerCase_def lower_char_def)
  have leave: "message 0 ''/Leave lobby'' in_lobby =
      leaveRoom 0 ''lobby'' (console_log ''Message from alice: /Leave lobby'' in_lobby)"
    using command_grammar [OF starts leave_split, of "''lobby''" "[]" "[]" "[]" 0 in_lobby]
    by (simp add: leave_lower index0_def in_lobby_fields)
  have rooms_split: "js_split (CHR '' '') (drop 1 ''/ROOMS'') = ''ROOMS'' # []"
    by simp
  have rooms_lower: "toLowerCase ''ROOMS'' = ''rooms''"
    by (simp add: toLowerCase_def lower_char_def)
  have rooms: "message 0 ''/ROOMS'' in_lobby =
      ws_send 0 ''To join a room, use: /join [room]''
        (console_log ''Message from alice: /ROOMS'' in_lobby)"
    using command_grammar [OF starts rooms_split, of "[]" "[]" "[]" "[]" 0 in_lobby]
    by (simp add: rooms_lower in_lobby_fields)
  have myrooms_split: "js_split (CHR '' '') (drop 1 ''/MyRooms'') = ''MyRooms'' # []"
    by simp
  have myrooms_lower: "toLowerCase ''MyRooms'' = ''myrooms''"
    by (simp add: toLowerCase_def lower_char_def)
  have myrooms: "message 0 ''/MyRooms'' in_lobby =
      ws_send 0 (''Your rooms:'' @ newline @ ''lobby'')
        (console_log ''Message from alice: /MyRooms'' in_lobby)"
    using command_grammar [OF starts myrooms_split, of "[]" "[]" "[]" "[]" 0 in_lobby]
    by (simp add: myrooms_lower in_lobby_fields)
  from starts [of "''RoOm lobby hi  there''"] room_split room_lower room_body room join leave
    rooms myrooms
  show ?thesis
    by (intro conjI) simp_all
qed

text \<open>
  C6 as the spec words it, with whitespace-delimited tokens, fails on the code: a tab is
  whitespace, so the first token of \<open>/join<TAB>lobby\<close> is \<open>join\<close> and its argument is
  \<open>lobby\<close>; the code takes \<open>join<TAB>lobby\<close> for the command name, and answers that it
  does not know this command instead of joining the room.
\<close>

theorem command_grammar_counterexample:
  "spec_tokens (drop 1 (''/join'' @ [CHR 0x09] @ ''lobby'')) = [''join'', ''lobby''] \<and>
   js_split (CHR '' '') (drop 1 (''/join'' @ [CHR 0x09] @ ''lobby'')) =
     [''join'' @ [CHR 0x09] @ ''lobby''] \<and>
   effects (message 0 (''/join'' @ [CHR 0x09] @ ''lobby'') connected) = effects connected @
     [Send 0 (''Unknown command: join'' @ [CHR 0x09] @
              ''lobby. Available commands: /join, /leave, /room, /rooms, /myrooms'')] \<and>
   effects (joinRoom 0 ''lobby'' connected) \<noteq>
     effects (message 0 (''/join'' @ [CHR 0x09] @ ''lobby'') connected)"
  apply (simp add: is_whitespace_def)
  apply (simp add: message_def startsWith_def toLowerCase_def lower_char_def Let_def effects_append_simps joinRoom_effects)
  done

text \<open>
  C7. When the room is already in the room set of the connection (in a state the server
  reaches), joining it again changes neither the room sets nor the subscriptions, and
  still sends \<open>You have joined room: {room}\<close> to the connection and publishes
  \<open>{username} has joined the room\<close> to the room once more.
\<close>

theorem repeated_join:
  assumes "s = run inputs init" and "roomName \<in> set (rooms (data s ws))"
  shows "data (joinRoom ws roomName s) = data s \<and>
         subs (joinRoom ws roomName s) = subs s \<and>
         effects (joinRoom ws roomName s) = effects s @
           [Subscribe ws roomName, RoomsAdd ws roomName,
            Send ws (''You have joined room: '' @ roomName),
            Publish roomName (username (data s ws) @ '' has joined the room'')]"
proof -
  have "consistent s"
    using assms(1) reachable_invariants(1) by simp
  with assms(2) have "(ws, roomName) \<in> subs s"
    by (simp add: consistent_def)
  then have "subs (joinRoom ws roomName s) = subs s"
    by (auto simp: joinRoom_subs)
  moreover have "data (joinRoom ws roomName s) = data s"
    using assms(2) by (simp add: joinRoom_data set_add_def)
  ultimately show ?thesis
    by (simp add: joinRoom_effects)
qed

theorem repeated_join_witness:
  "in_lobby = run [Connect alice True, Message 0 ''/join lobby''] init \<and>
   ''lobby'' \<in> set (rooms (data in_lobby 0)) \<and>
   data (joinRoom 0 ''lobby'' in_lobby) = data in_lobby \<and>
   subs (joinRoom 0 ''lobby'' in_lobby) = subs in_lobby \<and>
   effects (joinRoom 0 ''lobby'' in_lobby) = effects in_lobby @
     [Subscribe 0 ''lobby'', RoomsAdd 0 ''lobby'',
      Send 0 ''You have joined room: lobby'',
      Publish ''lobby'' ''alice has joined the room'']"
proof -
  have reached: "in_lobby = run [Connect alice True, Message 0 ''/join lobby''] init"
    by (rule in_lobby_def)
  have joined: "''lobby'' \<in> set (rooms (data in_lobby 0))"
    by (simp add: in_lobby_fields)
  from repeated_join [OF reached joined] reached joined show ?thesis
    by (simp add: in_lobby_fields)
qed

text \<open>
  C8. A command with invalid input is answered with one fixed reply and changes nothing:
  \<open>join\<close> and \<open>leave\<close> without a room name (no argument, or an empty first argument),
  \<open>room\<close> without a room name or with an empty message, and a command that is none of
  the five, which is named in the reply as it was typed.
\<close>

theorem invalid_commands:
  assumes "startsWith messageStr ''/''"
    and "js_split (CHR '' '') (drop 1 messageStr) = command # args"
  shows
   "(toLowerCase command = ''join'' \<and> (index0 args = None \<or> index0 args = Some []) \<longrightarrow>
       replies_only ws ''Please specify a room name: /join [room]'' s (message ws messageStr s)) \<and>
    (toLowerCase command = ''leave'' \<and> (index0 args = None \<or> index0 args = Some []) \<longrightarrow>
       replies_only ws ''Please specify a room name: /leave [room]'' s (message ws messageStr s)) \<and>
    (toLowerCase command = ''room'' \<and>
       (index0 args = None \<or> index0 args = Some [] \<or> js_join '' '' (drop 1 args) = []) \<longrightarrow>
       replies_only ws ''Please specify a room name and message: /room [room] [message]'' s
         (message ws messageStr s)) \<and>
    (toLowerCase command \<notin> {''join'', ''leave'', ''room'', ''rooms'', ''myrooms''} \<longrightarrow>
       replies_only ws
         (''Unknown command: '' @ command @
          ''. Available commands: /join, /leave, /room, /rooms, /myrooms'') s
         (message ws messageStr s))"
  using message_join_missing [OF assms] message_leave_missing [OF assms]
    message_room_missing [OF assms] message_unknown [OF assms]
  by (simp add: replies_onlyI)

theorem invalid_commands_witness:
  "replies_only 0 ''Please specify a room name: /join [room]'' in_lobby
     (message 0 ''/JOIN'' in_lobby) \<and>
   replies_only 0 ''Please specify a room name: /leave [room]'' in_lobby
     (message 0 ''/leave '' in_lobby) \<and>
   replies_only 0 ''Please specify a room name and message: /room [room] [message]'' in_lobby
     (message 0 ''/room lobby'' in_lobby) \<and>
   replies_only 0
     ''Unknown command: Foo. Available commands: /join, /leave, /room, /rooms, /myrooms'' in_lobby
     (message 0 ''/Foo bar'' in_lobby)"
  using invalid_commands [of "''/JOIN''" "''JOIN''" "[]" 0 in_lobby]
        invalid_commands [of "''/leave ''" "''leave''" "['''']" 0 in_lobby]
        invalid_commands [of "''/room lobby''" "''room''" "[''lobby'']" 0 in_lobby]
        invalid_commands [of "''/Foo bar''" "''Foo''" "[''bar'']" 0 in_lobby]
  by (simp add: startsWith_def toLowerCase_def lower_char_def index0_def)

text \<open>
  C9. A text that does not begin with \<open>/\<close> is answered with \<open>{username}: {message}\<close>, sent to
  the sender alone; nothing is published, whatever rooms the sender has joined, and the
  state stays as it was.
\<close>

theorem plain_message_echo:
  "\<not> startsWith messageStr ''/'' \<Longrightarrow>
   replies_only ws (username (data s ws) @ '': '' @ messageStr) s (message ws messageStr s)"
  by (simp add: message_plain replies_onlyI)

theorem plain_message_echo_witness:
  "\<not> startsWith ''hello'' ''/'' \<and>
   replies_only 0 ''alice: hello'' in_lobby (message 0 ''hello'' in_lobby)"
  using plain_message_echo [of "''hello''" 0 in_lobby]
  by (simp add: startsWith_def in_lobby_fields)

text \<open>
  C10. A \<open>username\<close> parameter that is present and empty gives the user name
  \<open>Anonymous\<close>, as an absent one does; and no connection of a state the server reaches
  has an empty user name.
\<close>

theorem empty_username_is_Anonymous:
  "(searchParams_get (searchParams req) ''username'' = Some [] \<longrightarrow>
      getUsernameFromReq req = ''Anonymous'') \<and>
   (searchParams_get (searchParams req) ''username'' = None \<longrightarrow>
      getUsernameFromReq req = ''Anonymous'') \<and>
   (c < next_conn (run inputs init) \<longrightarrow> username (data (run inputs init) c) \<noteq> [])"
  using reachable_invariants(3) [of inputs]
  by (simp add: getUsernameFromReq_def named_def)

theorem empty_username_is_Anonymous_witness:
  "searchParams_get (searchParams nameless) ''username'' = Some [] \<and>
   getUsernameFromReq nameless = ''Anonymous'' \<and>
   searchParams_get (searchParams absent) ''username'' = None \<and>
   getUsernameFromReq absent = ''Anonymous'' \<and>
   0 < next_conn (run [Connect nameless True] init) \<and>
   username (data (run [Connect nameless True] init) 0) \<noteq> []"
  using empty_username_is_Anonymous [of nameless 0 "[Connect nameless True]"]
        empty_username_is_Anonymous [of absent 0 "[Connect nameless True]"]
  by (simp add: nameless_def absent_def searchParams_get_def step_Connect_next_conn init_def
        del: step.simps(1))

end
